theory Spec2Isabelle
  imports Complex_Main
begin

section \<open>Data model (types.ts)\<close>

text \<open>
  JavaScript numbers are modelled as exact reals: rounding, infinities and NaN of IEEE
  doubles are outside this development. The two constructors called \<open>running\<close> in the
  source (one of \<open>GameState\<close>, one of \<open>DinosaurStatus\<close>) are told apart by capitalising
  the game states.
\<close>

datatype GameState = Waiting | Running | GameOver

datatype DinosaurStatus = running | jumping | ducking

record DinosaurState =
  y :: real
  vy :: real
  status :: DinosaurStatus

record ObstacleConfig =
  width :: real
  height :: real

record Obstacle = ObstacleConfig +
  x :: real
  type :: string

text \<open>
  The hitboxes of the collision test are the object literals
  \<open>{x, y, width, height}\<close> built inside \<open>gameLoop\<close>; their fields carry a prefix
  because the plain names are taken by the records above.
\<close>

record Hitbox =
  box_x :: real
  box_y :: real
  box_width :: real
  box_height :: real


section \<open>Constants (constants.ts)\<close>

definition GAME_WIDTH :: real where
  "GAME_WIDTH = 800"

definition GAME_HEIGHT :: real where
  "GAME_HEIGHT = 250"

definition GROUND_Y :: real where
  "GROUND_Y = GAME_HEIGHT - 20"

definition GRAVITY :: real where
  "GRAVITY = 1800"

definition JUMP_FORCE :: real where
  "JUMP_FORCE = 650"

definition DINO_RUNNING_DIMENSIONS :: ObstacleConfig where
  "DINO_RUNNING_DIMENSIONS = \<lparr>width = 44, height = 47\<rparr>"

definition DINO_DUCKING_DIMENSIONS :: ObstacleConfig where
  "DINO_DUCKING_DIMENSIONS = \<lparr>width = 59, height = 30\<rparr>"

definition INITIAL_SPEED :: real where
  "INITIAL_SPEED = 300"

definition SPEED_INCREASE_RATE :: real where
  "SPEED_INCREASE_RATE = 8"

definition OBSTACLE_INTERVAL_MIN :: real where
  "OBSTACLE_INTERVAL_MIN = 700"

definition OBSTACLE_INTERVAL_MAX :: real where
  "OBSTACLE_INTERVAL_MAX = 1800"

text \<open>
  The catalog is an object literal; \<open>Object.keys\<close> lists its keys in insertion order,
  so it is kept as an association list.
\<close>

definition OBSTACLE_CONFIGS :: "(string \<times> ObstacleConfig) list" where
  "OBSTACLE_CONFIGS =
     [(''CACTUS_SMALL'', \<lparr>width = 25, height = 50\<rparr>),
      (''CACTUS_LARGE'', \<lparr>width = 50, height = 50\<rparr>)]"


section \<open>Helpers of the component\<close>

text \<open>
  \<open>random(min, max) = Math.random() * (max - min) + min\<close>. The value of
  \<open>Math.random()\<close>, a number in \<open>[0, 1)\<close>, is passed in as the argument \<open>r\<close>.
\<close>

definition random_range :: "real \<Rightarrow> real \<Rightarrow> real \<Rightarrow> real" where
  "random_range lo hi r = r * (hi - lo) + lo"

definition getDinoDimensions :: "DinosaurStatus \<Rightarrow> ObstacleConfig" where
  "getDinoDimensions st =
     (if st = ducking then DINO_DUCKING_DIMENSIONS else DINO_RUNNING_DIMENSIONS)"

text \<open>\<open>GROUND_Y - dimensions.height\<close>, the ground line of a player with status \<open>st\<close>.\<close>

definition groundPosition :: "DinosaurStatus \<Rightarrow> real" where
  "groundPosition st = GROUND_Y - height (getDinoDimensions st)"


section \<open>The sub-steps of \<open>gameLoop\<close>\<close>

subsection \<open>Kinematics\<close>

text \<open>
  part\_001 lines 94--102 and the \<open>setDino\<close> updater of part\_002 lines 64--75:
  \<^verbatim>\<open>
    let newDinoVy = dino.vy + GRAVITY * deltaTime;
    let newDinoY = dino.y + newDinoVy * deltaTime;
    const groundPosition = GROUND_Y - currentDinoDimensions.height;
    if (newDinoY >= groundPosition) { newDinoY = groundPosition; newDinoVy = 0; }
  \<close>
  The result is the player with the new \<open>y\<close> and \<open>vy\<close> and the status it had.
\<close>

definition integrate :: "DinosaurState \<Rightarrow> real \<Rightarrow> DinosaurState" where
  "integrate d deltaTime =
     (let newDinoVy = vy d + GRAVITY * deltaTime;
          newDinoY = y d + newDinoVy * deltaTime
      in if newDinoY \<ge> groundPosition (status d)
         then d\<lparr>y := groundPosition (status d), vy := 0\<rparr>
         else d\<lparr>y := newDinoY, vy := newDinoVy\<rparr>)"

subsection \<open>Collision test\<close>

text \<open>
  The condition of the \<open>if\<close> inside the \<open>for\<close> loop (part\_001 lines 135--140,
  part\_002 lines 118--123), and the loop itself, which leaves at the first hit.
\<close>

definition collides :: "Hitbox \<Rightarrow> Hitbox \<Rightarrow> bool" where
  "collides a b \<longleftrightarrow>
     box_x a < box_x b + box_width b \<and>
     box_x a + box_width a > box_x b \<and>
     box_y a < box_y b + box_height b \<and>
     box_y a + box_height a > box_y b"

definition dinoHitbox :: "ObstacleConfig \<Rightarrow> real \<Rightarrow> Hitbox" where
  "dinoHitbox dims dinoY =
     \<lparr>box_x = 50, box_y = dinoY, box_width = width dims, box_height = height dims\<rparr>"

definition obstacleHitbox :: "Obstacle \<Rightarrow> Hitbox" where
  "obstacleHitbox obstacle =
     \<lparr>box_x = x obstacle, box_y = GROUND_Y - height obstacle,
      box_width = width obstacle, box_height = height obstacle\<rparr>"

fun hitsAny :: "Hitbox \<Rightarrow> Obstacle list \<Rightarrow> bool" where
  "hitsAny h [] = False"
| "hitsAny h (obstacle # rest) =
     (if collides h (obstacleHitbox obstacle) then True else hitsAny h rest)"


subsection \<open>World scroll\<close>

text \<open>
  part\_001 lines 104--106 and the first \<open>setObstacles\<close> updater of part\_002:
  \<^verbatim>\<open>
    obstacles.map(obstacle => ({ ...obstacle, x: obstacle.x - speed * deltaTime }))
             .filter(obstacle => obstacle.x > -obstacle.width)
  \<close>
\<close>

definition moveObstacle :: "real \<Rightarrow> real \<Rightarrow> Obstacle \<Rightarrow> Obstacle" where
  "moveObstacle spd deltaTime obstacle = obstacle\<lparr>x := x obstacle - spd * deltaTime\<rparr>"

definition scrollObstacles :: "real \<Rightarrow> real \<Rightarrow> Obstacle list \<Rightarrow> Obstacle list" where
  "scrollObstacles spd deltaTime obs =
     filter (\<lambda>obstacle. x obstacle > - width obstacle) (map (moveObstacle spd deltaTime) obs)"

subsection \<open>Spawn\<close>

text \<open>
  part\_001 lines 108--119 (part\_002 lines 85--96):
  \<^verbatim>\<open>
    nextObstacleTimeRef.current -= deltaTime * 1000;
    if (nextObstacleTimeRef.current <= 0) {
      const obstacleTypes = Object.keys(OBSTACLE_CONFIGS);
      const type = obstacleTypes[Math.floor(Math.random() * obstacleTypes.length)];
      const config = OBSTACLE_CONFIGS[type];
      newObstacles.push({ ...config, x: GAME_WIDTH, type });
      nextObstacleTimeRef.current =
        random(OBSTACLE_INTERVAL_MIN, OBSTACLE_INTERVAL_MAX) / (speed / INITIAL_SPEED);
    }
  \<close>
  The two calls of \<open>Math.random()\<close> are the arguments \<open>rndType\<close> and \<open>rndInterval\<close>.
  \<open>Math.random()\<close> lies in \<open>[0, 1)\<close>, so the index is within the key list and the key
  is in the catalog; the theorems that read the new obstacle assume \<open>0 \<le> rndType < 1\<close>.
  Division by a zero speed ratio is \<open>Infinity\<close> in JavaScript and \<open>0\<close> in HOL; the
  theorems that read the new countdown assume a positive speed.
\<close>

definition obstacleTypes :: "string list" where
  "obstacleTypes = map fst OBSTACLE_CONFIGS"

definition newObstacle :: "real \<Rightarrow> Obstacle" where
  "newObstacle rndType =
     (let type' = obstacleTypes ! nat \<lfloor>rndType * real (length obstacleTypes)\<rfloor>;
          config = the (map_of OBSTACLE_CONFIGS type')
      in \<lparr>width = width config, height = height config, x = GAME_WIDTH, type = type'\<rparr>)"

definition spawnObstacle ::
  "real \<Rightarrow> real \<Rightarrow> real \<Rightarrow> real \<Rightarrow> Obstacle list \<times> real \<Rightarrow> Obstacle list \<times> real" where
  "spawnObstacle spd deltaTime rndType rndInterval st =
     (let newObstacles = fst st;
          nextObstacleTime = snd st - deltaTime * 1000
      in if nextObstacleTime \<le> 0
         then (newObstacles @ [newObstacle rndType],
               random_range OBSTACLE_INTERVAL_MIN OBSTACLE_INTERVAL_MAX rndInterval
                 / (spd / INITIAL_SPEED))
         else (newObstacles, nextObstacleTime))"


section \<open>The component state and \<open>gameLoop\<close>\<close>

text \<open>
  The React state cells of \<open>App\<close> and the two reference cells the loop reads and writes.
  The sound cells, the mute flag and the frame handle take no part in the simulation and
  are left out. A frame callback closes over the state of the last render; the model
  takes the closure values and the state cells to be the same, that is, a render between
  two frames and no input event in between.
\<close>

record Game =
  gameState :: GameState
  dino :: DinosaurState
  obstacles :: "Obstacle list"
  score :: real
  highScore :: real
  speed :: real
  lastTimeRef :: real
  nextObstacleTimeRef :: real

definition resetGame :: "Game \<Rightarrow> real \<Rightarrow> Game" where
  "resetGame g rnd =
     g\<lparr>gameState := Running,
       dino := \<lparr>y = GROUND_Y - height DINO_RUNNING_DIMENSIONS, vy = 0, status = running\<rparr>,
       obstacles := [],
       score := 0,
       speed := INITIAL_SPEED,
       nextObstacleTimeRef := random_range OBSTACLE_INTERVAL_MIN OBSTACLE_INTERVAL_MAX rnd,
       lastTimeRef := 0\<rparr>"

text \<open>
  The body of \<open>gameLoop\<close> of part\_001 after \<open>deltaTime\<close> is known (lines 94--151): the
  new player and obstacles are computed first, the collision test runs on them, and a hit
  returns before any \<open>set...\<close> call but \<open>setGameState\<close>.
\<close>

definition tick_001 :: "Game \<Rightarrow> real \<Rightarrow> real \<Rightarrow> real \<Rightarrow> Game" where
  "tick_001 g deltaTime rndType rndInterval =
     (let currentDinoDimensions = getDinoDimensions (status (dino g));
          newDino = integrate (dino g) deltaTime;
          spawned = spawnObstacle (speed g) deltaTime rndType rndInterval
                      (scrollObstacles (speed g) deltaTime (obstacles g), nextObstacleTimeRef g);
          newObstacles = fst spawned;
          g1 = g\<lparr>nextObstacleTimeRef := snd spawned\<rparr>
      in if hitsAny (dinoHitbox currentDinoDimensions (y newDino)) newObstacles
         then g1\<lparr>gameState := GameOver\<rparr>
         else g1\<lparr>dino := newDino,
                 obstacles := newObstacles,
                 score := score g + speed g * deltaTime / 10,
                 speed := speed g + SPEED_INCREASE_RATE * deltaTime\<rparr>)"

text \<open>
  \<open>gameLoop\<close> of part\_001 (lines 84--152). The first frame after a start only records
  the time.
\<close>

definition gameLoop_001 :: "Game \<Rightarrow> real \<Rightarrow> real \<Rightarrow> real \<Rightarrow> Game" where
  "gameLoop_001 g time rndType rndInterval =
     (if lastTimeRef g = 0 then g\<lparr>lastTimeRef := time\<rparr>
      else tick_001 (g\<lparr>lastTimeRef := time\<rparr>) ((time - lastTimeRef g) / 1000) rndType rndInterval)"

text \<open>
  The body of \<open>gameLoop\<close> of part\_002 (lines 63--129): every update is queued with a
  \<open>set...\<close> call first, and the collision test then reads \<open>dino.y\<close> and \<open>obstacles\<close> of
  the closure, the values before this frame.
\<close>

definition tick_002 :: "Game \<Rightarrow> real \<Rightarrow> real \<Rightarrow> real \<Rightarrow> Game" where
  "tick_002 g deltaTime rndType rndInterval =
     (let spawned = spawnObstacle (speed g) deltaTime rndType rndInterval
                      (scrollObstacles (speed g) deltaTime (obstacles g), nextObstacleTimeRef g);
          g1 = g\<lparr>dino := integrate (dino g) deltaTime,
                 obstacles := fst spawned,
                 nextObstacleTimeRef := snd spawned,
                 score := score g + speed g * deltaTime / 10,
                 speed := speed g + SPEED_INCREASE_RATE * deltaTime\<rparr>;
          dinoDimensions = getDinoDimensions (status (dino g))
      in if hitsAny (dinoHitbox dinoDimensions (y (dino g))) (obstacles g)
         then g1\<lparr>gameState := GameOver\<rparr>
         else g1)"

definition gameLoop_002 :: "Game \<Rightarrow> real \<Rightarrow> real \<Rightarrow> real \<Rightarrow> Game" where
  "gameLoop_002 g time rndType rndInterval =
     (if lastTimeRef g = 0 then g\<lparr>lastTimeRef := time\<rparr>
      else tick_002 (g\<lparr>lastTimeRef := time\<rparr>) ((time - lastTimeRef g) / 1000) rndType rndInterval)"


text \<open>
  The collision tests the two versions make in a frame: part\_001 on the player and the
  obstacles it has just computed (the new obstacle included), part\_002 on those of the
  closure.
\<close>

definition detects_001 :: "Game \<Rightarrow> real \<Rightarrow> real \<Rightarrow> real \<Rightarrow> bool" where
  "detects_001 g deltaTime rndType rndInterval =
     hitsAny (dinoHitbox (getDinoDimensions (status (dino g))) (y (integrate (dino g) deltaTime)))
       (fst (spawnObstacle (speed g) deltaTime rndType rndInterval
              (scrollObstacles (speed g) deltaTime (obstacles g), nextObstacleTimeRef g)))"

definition detects_002 :: "Game \<Rightarrow> bool" where
  "detects_002 g =
     hitsAny (dinoHitbox (getDinoDimensions (status (dino g))) (y (dino g))) (obstacles g)"

text \<open>
  An episode of part\_001: one frame after the other, each with its elapsed time and its
  two random draws, for as long as the game is running (the effect on \<open>gameState\<close>
  requests frames in that state only).
\<close>

fun run_001 :: "Game \<Rightarrow> (real \<times> real \<times> real) list \<Rightarrow> Game" where
  "run_001 g [] = g"
| "run_001 g (frame # frames) =
     (if gameState g = Running
      then run_001 (tick_001 g (fst frame) (fst (snd frame)) (snd (snd frame))) frames
      else g)"


section \<open>Input and the game-over effect\<close>

text \<open>
  \<open>jump\<close> of part\_001 (lines 187--197); the key handler of part\_002 (lines 159--166)
  applies the same update.
\<close>

definition jump :: "DinosaurState \<Rightarrow> DinosaurState" where
  "jump prevDino =
     (let dimensions = getDinoDimensions (status prevDino);
          isOnGround = (y prevDino \<ge> GROUND_Y - height dimensions)
      in if isOnGround then prevDino\<lparr>vy := - JUMP_FORCE\<rparr> else prevDino)"

text \<open>
  The \<open>ArrowDown\<close> branches of \<open>handleKeyDown\<close> and \<open>handleKeyUp\<close> in a running game
  (part\_001 lines 204--210 and 219--223, part\_002 lines 167--168 and 177--181): only the
  status changes.
\<close>

definition handleKeyDown_ArrowDown :: "DinosaurState \<Rightarrow> DinosaurState" where
  "handleKeyDown_ArrowDown prevDino = prevDino\<lparr>status := ducking\<rparr>"

definition handleKeyUp_ArrowDown :: "DinosaurState \<Rightarrow> DinosaurState" where
  "handleKeyUp_ArrowDown prevDino = prevDino\<lparr>status := running\<rparr>"

text \<open>
  \<open>Number.prototype.toString\<close> on an integer, in decimal (JavaScript changes to
  exponent notation from \<open>10^21\<close> on, far beyond any score).
\<close>

fun digits :: "nat \<Rightarrow> string" where
  "digits n =
     (if n < 10 then [''0123456789'' ! n]
      else digits (n div 10) @ [''0123456789'' ! (n mod 10)])"

definition toString :: "int \<Rightarrow> string" where
  "toString n = (if n < 0 then CHR ''-'' # digits (nat (- n)) else digits (nat n))"

text \<open>
  The effect on \<open>gameState\<close> (part\_001 lines 155--171), with the key-value store it
  writes to. Scheduling of frames and the sound are left out.
\<close>

definition gameStateEffect ::
  "Game \<Rightarrow> (string \<rightharpoonup> string) \<Rightarrow> Game \<times> (string \<rightharpoonup> string)" where
  "gameStateEffect g localStorage =
     (if gameState g = Running then (g\<lparr>lastTimeRef := 0\<rparr>, localStorage)
      else if gameState g = GameOver then
        (let finalScore = \<lfloor>score g\<rfloor>
         in if real_of_int finalScore > highScore g
            then (g\<lparr>highScore := real_of_int finalScore\<rparr>,
                  localStorage(''dinoHighScore'' \<mapsto> toString finalScore))
            else (g, localStorage))
      else (g, localStorage))"


section \<open>Runs of the kinematics\<close>

text \<open>Successive frames with the elapsed times \<open>dts\<close> and no input in between.\<close>

fun fall :: "DinosaurState \<Rightarrow> real list \<Rightarrow> DinosaurState" where
  "fall d [] = d"
| "fall d (deltaTime # dts) = fall (integrate d deltaTime) dts"


section \<open>Facts about the sub-steps\<close>

lemma groundPosition_values:
  "groundPosition running = 183" "groundPosition jumping = 183" "groundPosition ducking = 200"
  by (simp_all add: groundPosition_def getDinoDimensions_def GROUND_Y_def GAME_HEIGHT_def
      DINO_RUNNING_DIMENSIONS_def DINO_DUCKING_DIMENSIONS_def)

lemma integrate_status: "status (integrate d deltaTime) = status d"
  by (simp add: integrate_def Let_def)

lemma integrate_below_ground: "y (integrate d deltaTime) \<le> groundPosition (status d)"
  by (simp add: integrate_def Let_def)

lemma integrate_landed:
  "y d = groundPosition (status d) \<Longrightarrow> vy d = 0 \<Longrightarrow> integrate d deltaTime = d"
  by (cases d) (simp add: integrate_def Let_def GRAVITY_def)

lemma moveObstacle_fields:
  "x (moveObstacle spd deltaTime obstacle) = x obstacle - spd * deltaTime"
  "width (moveObstacle spd deltaTime obstacle) = width obstacle"
  "height (moveObstacle spd deltaTime obstacle) = height obstacle"
  "type (moveObstacle spd deltaTime obstacle) = type obstacle"
  by (simp_all add: moveObstacle_def)

lemma scrollObstacles_map_filter:
  "scrollObstacles spd deltaTime obs =
     map (moveObstacle spd deltaTime)
       (filter (\<lambda>obstacle. x obstacle - spd * deltaTime > - width obstacle) obs)"
  by (simp add: scrollObstacles_def filter_map comp_def moveObstacle_fields)

lemma scrollObstacles_on_screen:
  "obstacle \<in> set (scrollObstacles spd deltaTime obs) \<Longrightarrow> x obstacle > - width obstacle"
  by (simp add: scrollObstacles_def)

lemma newObstacle_small:
  assumes "0 \<le> rndType" "rndType < 1 / 2"
  shows "newObstacle rndType =
           \<lparr>width = 25, height = 50, x = GAME_WIDTH, type = ''CACTUS_SMALL''\<rparr>"
proof -
  have "\<lfloor>rndType * 2\<rfloor> = 0"
    using assms by (simp add: floor_eq_iff)
  then show ?thesis
    by (simp add: newObstacle_def obstacleTypes_def OBSTACLE_CONFIGS_def)
qed

lemma newObstacle_large:
  assumes "1 / 2 \<le> rndType" "rndType < 1"
  shows "newObstacle rndType =
           \<lparr>width = 50, height = 50, x = GAME_WIDTH, type = ''CACTUS_LARGE''\<rparr>"
proof -
  have "\<lfloor>rndType * 2\<rfloor> = 1"
    using assms by (simp add: floor_eq_iff)
  then show ?thesis
    by (simp add: newObstacle_def obstacleTypes_def OBSTACLE_CONFIGS_def)
qed

lemma random_range_interval:
  assumes "0 \<le> r" "r < 1"
  shows "OBSTACLE_INTERVAL_MIN \<le> random_range OBSTACLE_INTERVAL_MIN OBSTACLE_INTERVAL_MAX r"
    and "random_range OBSTACLE_INTERVAL_MIN OBSTACLE_INTERVAL_MAX r < OBSTACLE_INTERVAL_MAX"
  using assms
  by (simp_all add: random_range_def OBSTACLE_INTERVAL_MIN_def OBSTACLE_INTERVAL_MAX_def)


section \<open>Facts about the two loops\<close>

text \<open>Each loop body, by the outcome of its collision test.\<close>

lemma tick_001_cases:
  "tick_001 g deltaTime rndType rndInterval =
     (let spawned = spawnObstacle (speed g) deltaTime rndType rndInterval
                      (scrollObstacles (speed g) deltaTime (obstacles g), nextObstacleTimeRef g)
      in if detects_001 g deltaTime rndType rndInterval
         then g\<lparr>nextObstacleTimeRef := snd spawned, gameState := GameOver\<rparr>
         else g\<lparr>nextObstacleTimeRef := snd spawned,
                dino := integrate (dino g) deltaTime,
                obstacles := fst spawned,
                score := score g + speed g * deltaTime / 10,
                speed := speed g + SPEED_INCREASE_RATE * deltaTime\<rparr>)"
  by (simp add: tick_001_def detects_001_def Let_def)

lemma tick_002_cases:
  "tick_002 g deltaTime rndType rndInterval =
     (let spawned = spawnObstacle (speed g) deltaTime rndType rndInterval
                      (scrollObstacles (speed g) deltaTime (obstacles g), nextObstacleTimeRef g)
      in g\<lparr>nextObstacleTimeRef := snd spawned,
            dino := integrate (dino g) deltaTime,
            obstacles := fst spawned,
            score := score g + speed g * deltaTime / 10,
            speed := speed g + SPEED_INCREASE_RATE * deltaTime,
            gameState := (if detects_002 g then GameOver else gameState g)\<rparr>)"
  by (simp add: tick_002_def detects_002_def Let_def)

lemma detects_001_lastTimeRef [simp]:
  "detects_001 (g\<lparr>lastTimeRef := t\<rparr>) deltaTime rndType rndInterval
     = detects_001 g deltaTime rndType rndInterval"
  by (simp add: detects_001_def)

lemma detects_002_lastTimeRef [simp]: "detects_002 (g\<lparr>lastTimeRef := t\<rparr>) = detects_002 g"
  by (simp add: detects_002_def)

lemma tick_001_gameState:
  "gameState (tick_001 g deltaTime rndType rndInterval) =
     (if detects_001 g deltaTime rndType rndInterval then GameOver else gameState g)"
  by (simp add: tick_001_cases Let_def)

lemma tick_001_score:
  "score (tick_001 g deltaTime rndType rndInterval) =
     (if detects_001 g deltaTime rndType rndInterval then score g
      else score g + speed g * deltaTime / 10)"
  by (simp add: tick_001_cases Let_def)

lemma tick_001_speed:
  "speed (tick_001 g deltaTime rndType rndInterval) =
     (if detects_001 g deltaTime rndType rndInterval then speed g
      else speed g + SPEED_INCREASE_RATE * deltaTime)"
  by (simp add: tick_001_cases Let_def)

lemma run_001_stopped: "gameState g \<noteq> Running \<Longrightarrow> run_001 g frames = g"
  by (cases frames) simp_all

lemma run_001_append: "run_001 g (frames @ frames') = run_001 (run_001 g frames) frames'"
  by (induction frames arbitrary: g) (simp_all add: run_001_stopped)

lemma run_001_grows:
  "0 \<le> speed g \<Longrightarrow> \<forall>frame \<in> set frames. 0 \<le> fst frame \<Longrightarrow>
     score g \<le> score (run_001 g frames) \<and> speed g \<le> speed (run_001 g frames)"
proof (induction frames arbitrary: g)
  case Nil
  then show ?case by simp
next
  case (Cons frame frames)
  let ?g = "tick_001 g (fst frame) (fst (snd frame)) (snd (snd frame))"
  have dt: "0 \<le> fst frame"
    using Cons.prems(2) by simp
  have step: "score g \<le> score ?g" "speed g \<le> speed ?g"
    using Cons.prems(1) dt by (simp_all add: tick_001_score tick_001_speed SPEED_INCREASE_RATE_def)
  have "score ?g \<le> score (run_001 ?g frames) \<and> speed ?g \<le> speed (run_001 ?g frames)"
    using Cons.IH [of ?g] Cons.prems step by simp
  with step show ?case by auto
qed

lemma run_001_speed_positive:
  assumes "\<forall>frame \<in> set frames. 0 \<le> fst frame"
  shows "INITIAL_SPEED \<le> speed (run_001 (resetGame g rnd) frames)"
    and "0 < speed (run_001 (resetGame g rnd) frames)"
proof -
  have start: "speed (resetGame g rnd) = INITIAL_SPEED"
    by (simp add: resetGame_def)
  then show "INITIAL_SPEED \<le> speed (run_001 (resetGame g rnd) frames)"
    using run_001_grows [of "resetGame g rnd" frames] assms by (simp add: INITIAL_SPEED_def)
  then show "0 < speed (run_001 (resetGame g rnd) frames)"
    by (simp add: INITIAL_SPEED_def)
qed

text \<open>
  While the game goes on, the player of part\_001 follows the kinematics alone: a run that
  is still running has moved the player by one kinematics sub-step per frame.
\<close>

lemma run_001_dino:
  "gameState g = Running \<Longrightarrow> gameState (run_001 g frames) = Running \<Longrightarrow>
     dino (run_001 g frames) = fall (dino g) (map fst frames)"
proof (induction frames arbitrary: g)
  case Nil
  then show ?case by simp
next
  case (Cons frame frames)
  let ?g = "tick_001 g (fst frame) (fst (snd frame)) (snd (snd frame))"
  have still: "gameState ?g = Running"
  proof (rule ccontr)
    assume "gameState ?g \<noteq> Running"
    then have "run_001 ?g frames = ?g"
      by (rule run_001_stopped)
    with Cons.prems \<open>gameState ?g \<noteq> Running\<close> show False
      by simp
  qed
  then have "\<not> detects_001 g (fst frame) (fst (snd frame)) (snd (snd frame))"
    by (simp add: tick_001_gameState split: if_splits)
  then have moved: "dino ?g = integrate (dino g) (fst frame)"
    by (simp add: tick_001_cases Let_def)
  have "dino (run_001 ?g frames) = fall (dino ?g) (map fst frames)"
    using Cons.IH [OF still] Cons.prems by simp
  with moved Cons.prems(1) show ?case
    by simp
qed


section \<open>Facts about runs of the kinematics\<close>

lemma jump_cases:
  "jump d = (if groundPosition (status d) \<le> y d then d\<lparr>vy := - JUMP_FORCE\<rparr> else d)"
  by (simp add: jump_def groundPosition_def Let_def)

lemma fall_landed:
  "y d = groundPosition (status d) \<Longrightarrow> vy d = 0 \<Longrightarrow> fall d dts = d"
  by (induction dts) (simp_all add: integrate_landed)

lemma fall_status: "status (fall d dts) = status d"
  by (induction dts arbitrary: d) (simp_all add: integrate_status)

lemma fall_below_ground:
  "y d \<le> groundPosition (status d) \<Longrightarrow> y (fall d dts) \<le> groundPosition (status d)"
proof (induction dts arbitrary: d)
  case Nil
  then show ?case by simp
next
  case (Cons deltaTime dts)
  have "y (integrate d deltaTime) \<le> groundPosition (status (integrate d deltaTime))"
    by (simp add: integrate_below_ground integrate_status)
  from Cons.IH [OF this] show ?case
    by (simp add: integrate_status)
qed

lemma fall_snoc: "fall d (dts @ [deltaTime]) = integrate (fall d dts) deltaTime"
  by (induction dts arbitrary: d) simp_all

lemma fall_clamped:
  "dts \<noteq> [] \<Longrightarrow> y (fall d dts) \<le> groundPosition (status d)"
proof (induction dts rule: rev_induct)
  case Nil
  then show ?case by simp
next
  case (snoc deltaTime dts)
  have "y (integrate (fall d dts) deltaTime) \<le> groundPosition (status (fall d dts))"
    by (rule integrate_below_ground)
  then show ?case
    by (simp add: fall_snoc fall_status)
qed

text \<open>After at least one frame, a player on its ground line is at rest.\<close>

lemma fall_on_ground_at_rest:
  "dts \<noteq> [] \<Longrightarrow> y (fall d dts) = groundPosition (status d) \<Longrightarrow> vy (fall d dts) = 0"
proof (induction dts rule: rev_induct)
  case Nil
  then show ?case by simp
next
  case (snoc deltaTime dts)
  let ?d = "fall d dts"
  have st: "status ?d = status d"
    by (rule fall_status)
  from snoc.prems(2) show ?case
    by (auto simp: fall_snoc integrate_def Let_def st split: if_splits)
qed

text \<open>
  A player that took the jump impulse \<open>T\<close> seconds ago, on or beyond its ground line, has
  the velocity \<open>1800 T - 650\<close> and is at least as low as the parabola
  \<open>T (900 T - 650)\<close> from its ground line; each frame keeps both, so the player is down
  once \<open>13/18\<close> seconds have passed.
\<close>

lemma jump_lands:
  assumes "vy d = 1800 * T - JUMP_FORCE"
    and "groundPosition (status d) + T * (900 * T - JUMP_FORCE) \<le> y d"
    and "0 \<le> T"
    and "dts \<noteq> []" "\<forall>deltaTime \<in> set dts. 0 \<le> deltaTime"
    and "13 / 18 \<le> T + sum_list dts"
  shows "fall d dts = d\<lparr>y := groundPosition (status d), vy := 0\<rparr>"
  using assms
proof (induction dts arbitrary: d T)
  case Nil
  then show ?case by simp
next
  case (Cons deltaTime dts)
  let ?g = "groundPosition (status d)"
  let ?vy = "vy d + GRAVITY * deltaTime"
  let ?y = "y d + ?vy * deltaTime"
  have dt: "0 \<le> deltaTime"
    using Cons.prems(5) by simp
  show ?case
  proof (cases "?g \<le> ?y")
    case True
    then have "integrate d deltaTime = d\<lparr>y := ?g, vy := 0\<rparr>"
      by (simp add: integrate_def Let_def)
    then show ?thesis
      by (simp add: fall_landed)
  next
    case False
    let ?d = "integrate d deltaTime"
    have d': "?d = d\<lparr>y := ?y, vy := ?vy\<rparr>"
      using False by (simp add: integrate_def Let_def)
    have speed': "vy ?d = 1800 * (T + deltaTime) - JUMP_FORCE"
      using Cons.prems(1) by (simp add: d' GRAVITY_def algebra_simps)
    have square: "0 \<le> deltaTime * deltaTime"
      by simp
    have "(T + deltaTime) * (900 * (T + deltaTime) - JUMP_FORCE)
            = T * (900 * T - JUMP_FORCE) + (1800 * T - JUMP_FORCE) * deltaTime
              + 900 * (deltaTime * deltaTime)"
      by (simp add: algebra_simps)
    moreover have "?vy * deltaTime
            = (1800 * T - JUMP_FORCE) * deltaTime + 1800 * (deltaTime * deltaTime)"
      unfolding Cons.prems(1) by (simp add: GRAVITY_def algebra_simps)
    ultimately have "?g + (T + deltaTime) * (900 * (T + deltaTime) - JUMP_FORCE) \<le> ?y"
      using Cons.prems(2) square by linarith
    then have height':
      "groundPosition (status ?d) + (T + deltaTime) * (900 * (T + deltaTime) - JUMP_FORCE) \<le> y ?d"
      by (simp add: d')
    show ?thesis
    proof (cases "dts = []")
      case True
      then have "13 / 18 \<le> T + deltaTime"
        using Cons.prems(6) by simp
      moreover have "0 \<le> T + deltaTime"
        using Cons.prems(3) dt by simp
      ultimately have "0 \<le> (T + deltaTime) * (900 * (T + deltaTime) - JUMP_FORCE)"
        by (intro mult_nonneg_nonneg) (simp_all add: JUMP_FORCE_def)
      with height' have "?g \<le> ?y"
        by (simp add: d')
      with False show ?thesis by simp
    next
      case nonempty: False
      have "fall ?d dts = ?d\<lparr>y := groundPosition (status ?d), vy := 0\<rparr>"
      proof (rule Cons.IH [of ?d "T + deltaTime"])
        show "vy ?d = 1800 * (T + deltaTime) - JUMP_FORCE"
          by (rule speed')
        show "groundPosition (status ?d) + (T + deltaTime) * (900 * (T + deltaTime) - JUMP_FORCE)
                \<le> y ?d"
          by (rule height')
        show "0 \<le> T + deltaTime"
          using Cons.prems(3) dt by simp
        show "dts \<noteq> []"
          by (rule nonempty)
        show "\<forall>deltaTime \<in> set dts. 0 \<le> deltaTime"
          using Cons.prems(5) by simp
        show "13 / 18 \<le> T + deltaTime + sum_list dts"
          using Cons.prems(6) by simp
      qed
      then show ?thesis
        by (simp add: d')
    qed
  qed
qed


section \<open>Kinematics\<close>

text \<open>
  C1. For every player state \<open>(y, vy)\<close>, every status and every \<open>dt \<ge> 0\<close>, the kinematics
  sub-step (the same in both versions of the loop) computes \<open>vy' = vy + GRAVITY * dt\<close> and
  \<open>y' = y + vy' * dt\<close>; whenever \<open>y' \<ge> groundY(status)\<close> it returns \<open>y' = groundY(status)\<close>
  and \<open>vy' = 0\<close> instead; the status is kept, and the result always has
  \<open>y' \<le> groundY(status)\<close>.
\<close>

theorem kinematics_step:
  "0 \<le> deltaTime \<Longrightarrow>
     (let newVy = vy d + GRAVITY * deltaTime;
          newY = y d + newVy * deltaTime;
          d' = integrate d deltaTime
      in (if newY \<ge> groundPosition (status d)
          then y d' = groundPosition (status d) \<and> vy d' = 0
          else y d' = newY \<and> vy d' = newVy)
         \<and> status d' = status d
         \<and> y d' \<le> groundPosition (status d))"
  by (simp add: integrate_def Let_def)

theorem kinematics_step_witness:
  "(0::real) \<le> 1 / 60
   \<and> integrate \<lparr>y = 183, vy = - 650, status = running\<rparr> (1 / 60)
       = \<lparr>y = 518 / 3, vy = - 620, status = running\<rparr>
   \<and> y (integrate \<lparr>y = 183, vy = - 650, status = running\<rparr> (1 / 60)) \<le> groundPosition running"
  using kinematics_step [of "1 / 60" "\<lparr>y = 183, vy = - 650, status = running\<rparr>"]
  by (simp add: Let_def GRAVITY_def groundPosition_values integrate_def)


section \<open>Collision predicate\<close>

text \<open>
  C2. The collision predicate of two axis-aligned boxes is exactly
  \<open>a.x < b.x + b.w && a.x + a.w > b.x && a.y < b.y + b.h && a.y + a.h > b.y\<close>; it is
  symmetric in its two arguments; boxes that touch exactly (\<open>a.x + a.w = b.x\<close>) do not
  collide; the dinosaur box \<open>{x:50, y:180, w:44, h:47}\<close> collides with the obstacle box
  \<open>{x:60, y:180, w:25, h:50}\<close> and does not collide with the same box moved to \<open>x = 95\<close>.
\<close>

theorem collision_predicate:
  "(collides a b \<longleftrightarrow>
      box_x a < box_x b + box_width b \<and> box_x a + box_width a > box_x b \<and>
      box_y a < box_y b + box_height b \<and> box_y a + box_height a > box_y b)
   \<and> collides a b = collides b a
   \<and> \<not> (box_x a + box_width a = box_x b \<and> collides a b)
   \<and> collides \<lparr>box_x = 50, box_y = 180, box_width = 44, box_height = 47\<rparr>
                \<lparr>box_x = 60, box_y = 180, box_width = 25, box_height = 50\<rparr>
   \<and> \<not> collides \<lparr>box_x = 50, box_y = 180, box_width = 44, box_height = 47\<rparr>
                  \<lparr>box_x = 95, box_y = 180, box_width = 25, box_height = 50\<rparr>"
  by (auto simp: collides_def)


section \<open>World scroll\<close>

text \<open>
  C3, as the code has it. In the world-scroll sub-step every obstacle's \<open>x\<close> decreases by
  exactly \<open>speed * dt\<close> and nothing else of it changes; the survivors are the moved
  obstacles in their old order (the obstacles that pass the test, filtered from the old
  list and then moved); an obstacle of the list is removed exactly when its new position
  has \<open>x + width \<le> 0\<close>; so no obstacle with \<open>x \<le> -width\<close> is left after the sub-step.
\<close>

theorem scroll_step:
  "scrollObstacles spd deltaTime obs =
     map (moveObstacle spd deltaTime)
       (filter (\<lambda>obstacle. x obstacle - spd * deltaTime > - width obstacle) obs)
   \<and> x (moveObstacle spd deltaTime ob) = x ob - spd * deltaTime
   \<and> width (moveObstacle spd deltaTime ob) = width ob
   \<and> height (moveObstacle spd deltaTime ob) = height ob
   \<and> type (moveObstacle spd deltaTime ob) = type ob
   \<and> (ob \<in> set obs \<longrightarrow>
        (moveObstacle spd deltaTime ob \<notin> set (scrollObstacles spd deltaTime obs)
          \<longleftrightarrow> x ob - spd * deltaTime + width ob \<le> 0))
   \<and> (\<forall>obstacle \<in> set (scrollObstacles spd deltaTime obs). x obstacle > - width obstacle)"
proof -
  have removed: "moveObstacle spd deltaTime ob \<notin> set (scrollObstacles spd deltaTime obs)
          \<longleftrightarrow> x ob - spd * deltaTime + width ob \<le> 0" if "ob \<in> set obs"
    using that by (auto simp: scrollObstacles_def moveObstacle_fields)
  have kept: "\<forall>obstacle \<in> set (scrollObstacles spd deltaTime obs). x obstacle > - width obstacle"
    using scrollObstacles_on_screen by fastforce
  show ?thesis
    using removed kept by (simp add: scrollObstacles_map_filter [symmetric] moveObstacle_fields)
qed

theorem scroll_step_witness:
  "scrollObstacles 300 (1 / 60)
     [\<lparr>width = 25, height = 50, x = - 21, type = ''CACTUS_SMALL''\<rparr>,
      \<lparr>width = 50, height = 50, x = 400, type = ''CACTUS_LARGE''\<rparr>,
      \<lparr>width = 25, height = 50, x = 700, type = ''CACTUS_SMALL''\<rparr>]
   = [\<lparr>width = 50, height = 50, x = 395, type = ''CACTUS_LARGE''\<rparr>,
      \<lparr>width = 25, height = 50, x = 695, type = ''CACTUS_SMALL''\<rparr>]
   \<and> \<lparr>width = 25, height = 50, x = - 21, type = ''CACTUS_SMALL''\<rparr>
       \<in> set [\<lparr>width = 25, height = 50, x = - 21, type = ''CACTUS_SMALL''\<rparr>,
      \<lparr>width = 50, height = 50, x = 400, type = ''CACTUS_LARGE''\<rparr>,
      \<lparr>width = 25, height = 50, x = 700, type = ''CACTUS_SMALL''\<rparr>]
   \<and> (- 21 :: real) - 300 * (1 / 60) + 25 \<le> 0"
  using scroll_step [of 300 "1 / 60"
     "[\<lparr>width = 25, height = 50, x = - 21, type = ''CACTUS_SMALL''\<rparr>,
      \<lparr>width = 50, height = 50, x = 400, type = ''CACTUS_LARGE''\<rparr>,
      \<lparr>width = 25, height = 50, x = 700, type = ''CACTUS_SMALL''\<rparr>]"
     "\<lparr>width = 25, height = 50, x = - 21, type = ''CACTUS_SMALL''\<rparr>"]
  by (simp add: moveObstacle_def)

text \<open>
  The claim as stated has the removal exactly once \<open>x + width < 0\<close>. An obstacle of width
  25 at \<open>x = -20\<close> moves to \<open>x = -25\<close> in a frame of 1/60 s at speed 300: its
  \<open>x + width\<close> is 0, not below 0, and it is removed.
\<close>

theorem scroll_boundary_counterexample:
  "scrollObstacles 300 (1 / 60) [\<lparr>width = 25, height = 50, x = - 20, type = ''CACTUS_SMALL''\<rparr>] = []
   \<and> \<not> (x (moveObstacle 300 (1 / 60) \<lparr>width = 25, height = 50, x = - 20, type = ''CACTUS_SMALL''\<rparr>)
          + width (moveObstacle 300 (1 / 60) \<lparr>width = 25, height = 50, x = - 20, type = ''CACTUS_SMALL''\<rparr>) < 0)"
  by (simp add: scrollObstacles_def moveObstacle_def)


section \<open>Score and speed\<close>

text \<open>
  C4, as the code has it. In a running game of part\_001 a frame with \<open>dt \<ge> 0\<close> that
  detects no collision (the game is still running after it) sets the score to
  \<open>score + speed * dt / 10\<close> and the speed to \<open>speed + SPEED_INCREASE_RATE * dt\<close>; the
  frame that detects a collision leaves both as they were. So for every sequence of
  frames with \<open>dt \<ge> 0\<close>, from a state whose speed is not negative (as after a reset),
  the score and the speed never decrease along the episode. A reset sets them to
  \<open>0\<close> and \<open>INITIAL_SPEED\<close>.
\<close>

theorem score_speed_progress:
  "(gameState g = Running \<and> 0 \<le> deltaTime \<longrightarrow>
      (let g' = tick_001 g deltaTime rndType rndInterval
       in if gameState g' = Running
          then score g' = score g + speed g * deltaTime / 10
               \<and> speed g' = speed g + SPEED_INCREASE_RATE * deltaTime
          else score g' = score g \<and> speed g' = speed g))
   \<and> (0 \<le> speed g \<and> (\<forall>frame \<in> set (frames @ frames'). 0 \<le> fst frame) \<longrightarrow>
        score (run_001 g frames) \<le> score (run_001 g (frames @ frames'))
        \<and> speed (run_001 g frames) \<le> speed (run_001 g (frames @ frames')))
   \<and> score (resetGame g rnd) = 0
   \<and> speed (resetGame g rnd) = INITIAL_SPEED"
proof -
  have one: "gameState g = Running \<and> 0 \<le> deltaTime \<longrightarrow>
      (let g' = tick_001 g deltaTime rndType rndInterval
       in if gameState g' = Running
          then score g' = score g + speed g * deltaTime / 10
               \<and> speed g' = speed g + SPEED_INCREASE_RATE * deltaTime
          else score g' = score g \<and> speed g' = speed g)"
    by (simp add: Let_def tick_001_gameState tick_001_score tick_001_speed)
  have many: "score (run_001 g frames) \<le> score (run_001 g (frames @ frames'))
        \<and> speed (run_001 g frames) \<le> speed (run_001 g (frames @ frames'))"
    if "0 \<le> speed g" and "\<forall>frame \<in> set (frames @ frames'). 0 \<le> fst frame"
  proof -
    have "0 \<le> speed (run_001 g frames)"
      using run_001_grows [of g frames] that by auto
    then show ?thesis
      using run_001_grows [of "run_001 g frames" frames'] that(2)
      by (simp add: run_001_append)
  qed
  have reset: "score (resetGame g rnd) = 0" "speed (resetGame g rnd) = INITIAL_SPEED"
    by (simp_all add: resetGame_def)
  show ?thesis
    using one many reset by blast
qed

theorem score_speed_progress_witness:
  "gameState \<lparr>gameState = Running, dino = \<lparr>y = 183, vy = 0, status = running\<rparr>,
       obstacles = [], score = 0, highScore = 0, speed = 300, lastTimeRef = 0,
       nextObstacleTimeRef = 1000\<rparr> = Running
   \<and> (0::real) \<le> 1 / 60
   \<and> score (tick_001 \<lparr>gameState = Running, dino = \<lparr>y = 183, vy = 0, status = running\<rparr>,
       obstacles = [], score = 0, highScore = 0, speed = 300, lastTimeRef = 0,
       nextObstacleTimeRef = 1000\<rparr> (1 / 60) (1 / 4) (1 / 2)) = 1 / 2
   \<and> speed (tick_001 \<lparr>gameState = Running, dino = \<lparr>y = 183, vy = 0, status = running\<rparr>,
       obstacles = [], score = 0, highScore = 0, speed = 300, lastTimeRef = 0,
       nextObstacleTimeRef = 1000\<rparr> (1 / 60) (1 / 4) (1 / 2)) = 4502 / 15
   \<and> score (run_001 \<lparr>gameState = Running, dino = \<lparr>y = 183, vy = 0, status = running\<rparr>,
       obstacles = [], score = 0, highScore = 0, speed = 300, lastTimeRef = 0,
       nextObstacleTimeRef = 1000\<rparr> [(1 / 60, 1 / 4, 1 / 2)])
       \<le> score (run_001 \<lparr>gameState = Running, dino = \<lparr>y = 183, vy = 0, status = running\<rparr>,
       obstacles = [], score = 0, highScore = 0, speed = 300, lastTimeRef = 0,
       nextObstacleTimeRef = 1000\<rparr> [(1 / 60, 1 / 4, 1 / 2), (1 / 30, 3 / 4, 1 / 2)])"
  using score_speed_progress [of
      "\<lparr>gameState = Running, dino = \<lparr>y = 183, vy = 0, status = running\<rparr>,
       obstacles = [], score = 0, highScore = 0, speed = 300, lastTimeRef = 0,
       nextObstacleTimeRef = 1000\<rparr>"
      "1 / 60" "1 / 4" "1 / 2" "[(1 / 60, 1 / 4, 1 / 2)]" "[(1 / 30, 3 / 4, 1 / 2)]"]
  by (simp add: Let_def tick_001_gameState detects_001_def spawnObstacle_def scrollObstacles_def
      SPEED_INCREASE_RATE_def)

text \<open>
  The claim as stated has every frame of a running game update the score. With a small
  cactus at \<open>x = 96\<close> the frame of 1/60 s moves it to \<open>x = 91\<close>, under the player
  (\<open>50 + 44 = 94\<close>): the frame ends the game and the score stays 0, not
  \<open>0 + 300 * (1/60) / 10\<close>.
\<close>

theorem every_frame_scores_counterexample:
  "gameState \<lparr>gameState = Running, dino = \<lparr>y = 183, vy = 0, status = running\<rparr>,
       obstacles = [\<lparr>width = 25, height = 50, x = 96, type = ''CACTUS_SMALL''\<rparr>],
       score = 0, highScore = 0, speed = 300, lastTimeRef = 1000, nextObstacleTimeRef = 1000\<rparr> = Running
   \<and> (0::real) \<le> 1 / 60
   \<and> score (tick_001 \<lparr>gameState = Running, dino = \<lparr>y = 183, vy = 0, status = running\<rparr>,
       obstacles = [\<lparr>width = 25, height = 50, x = 96, type = ''CACTUS_SMALL''\<rparr>],
       score = 0, highScore = 0, speed = 300, lastTimeRef = 1000, nextObstacleTimeRef = 1000\<rparr> (1 / 60) (1 / 4) (1 / 2)) = 0
   \<and> (0::real) + 300 * (1 / 60) / 10 \<noteq> 0"
  by (simp add: tick_001_def Let_def
      spawnObstacle_def scrollObstacles_def moveObstacle_def integrate_def GRAVITY_def
      groundPosition_def getDinoDimensions_def GROUND_Y_def GAME_HEIGHT_def
      DINO_RUNNING_DIMENSIONS_def dinoHitbox_def obstacleHitbox_def collides_def)


section \<open>Spawn\<close>

text \<open>
  C5. In the spawn sub-step the countdown goes down by \<open>dt * 1000\<close>. When the result is
  \<open>\<le> 0\<close>, however far below, exactly one obstacle is appended: it stands at
  \<open>x = GAME_WIDTH\<close> and its type is drawn from the catalog with \<open>Math.random()\<close>, the
  small cactus on the lower half of \<open>[0, 1)\<close> and the large one on the upper half; the
  countdown is then set to a draw \<open>MIN + r * (MAX - MIN)\<close> from
  \<open>[OBSTACLE_INTERVAL_MIN, OBSTACLE_INTERVAL_MAX]\<close> divided by \<open>speed / INITIAL_SPEED\<close>.
  Otherwise nothing is appended and the countdown keeps the decreased value. At most one
  obstacle is added in a frame.
\<close>

theorem spawn_step:
  assumes "0 \<le> rndType" "rndType < 1" "0 \<le> rndInterval" "rndInterval < 1" "0 < spd"
  shows "let countdown = nextObstacleTime - deltaTime * 1000;
             draw = random_range OBSTACLE_INTERVAL_MIN OBSTACLE_INTERVAL_MAX rndInterval;
             res = spawnObstacle spd deltaTime rndType rndInterval (obs, nextObstacleTime)
         in (if countdown \<le> 0
             then fst res = obs @ [newObstacle rndType]
                  \<and> snd res = draw / (spd / INITIAL_SPEED)
                  \<and> snd res = draw * INITIAL_SPEED / spd
                  \<and> 0 < snd res
             else res = (obs, countdown))
            \<and> length (fst res) \<le> length obs + 1
            \<and> x (newObstacle rndType) = GAME_WIDTH
            \<and> (if rndType < 1 / 2
                then newObstacle rndType =
                       \<lparr>width = 25, height = 50, x = GAME_WIDTH, type = ''CACTUS_SMALL''\<rparr>
                else newObstacle rndType =
                       \<lparr>width = 50, height = 50, x = GAME_WIDTH, type = ''CACTUS_LARGE''\<rparr>)
            \<and> draw = OBSTACLE_INTERVAL_MIN
                       + rndInterval * (OBSTACLE_INTERVAL_MAX - OBSTACLE_INTERVAL_MIN)
            \<and> OBSTACLE_INTERVAL_MIN \<le> draw \<and> draw \<le> OBSTACLE_INTERVAL_MAX"
proof -
  let ?draw = "random_range OBSTACLE_INTERVAL_MIN OBSTACLE_INTERVAL_MAX rndInterval"
  have draw: "OBSTACLE_INTERVAL_MIN \<le> ?draw" "?draw < OBSTACLE_INTERVAL_MAX"
    using assms(3,4) by (rule random_range_interval)+
  have pos: "0 < ?draw / (spd / INITIAL_SPEED)"
    using draw(1) assms(5) by (simp add: OBSTACLE_INTERVAL_MIN_def INITIAL_SPEED_def)
  have kind: "if rndType < 1 / 2
      then newObstacle rndType =
             \<lparr>width = 25, height = 50, x = GAME_WIDTH, type = ''CACTUS_SMALL''\<rparr>
      else newObstacle rndType =
             \<lparr>width = 50, height = 50, x = GAME_WIDTH, type = ''CACTUS_LARGE''\<rparr>"
    using assms(1,2) newObstacle_small [of rndType] newObstacle_large [of rndType] by simp
  have at_edge: "x (newObstacle rndType) = GAME_WIDTH"
    using kind by (simp split: if_splits)
  show ?thesis
    using draw pos kind at_edge
    by (simp add: Let_def spawnObstacle_def random_range_def)
qed

theorem spawn_step_witness:
  "(0::real) \<le> 3 / 4 \<and> (3 / 4 :: real) < 1 \<and> (0::real) \<le> 1 / 2 \<and> (1 / 2 :: real) < 1
   \<and> (0::real) < 600
   \<and> spawnObstacle 600 (1 / 10) (3 / 4) (1 / 2)
        ([\<lparr>width = 25, height = 50, x = 300, type = ''CACTUS_SMALL''\<rparr>], 40)
      = ([\<lparr>width = 25, height = 50, x = 300, type = ''CACTUS_SMALL''\<rparr>,
          \<lparr>width = 50, height = 50, x = 800, type = ''CACTUS_LARGE''\<rparr>], 625)"
  using spawn_step [of "3 / 4" "1 / 2" 600 40 "1 / 10"
      "[\<lparr>width = 25, height = 50, x = 300, type = ''CACTUS_SMALL''\<rparr>]"]
  by (simp add: Let_def prod_eq_iff random_range_def OBSTACLE_INTERVAL_MIN_def
      OBSTACLE_INTERVAL_MAX_def INITIAL_SPEED_def GAME_WIDTH_def)



section \<open>Jump and landing\<close>

text \<open>
  C6, as the code has it. A jump input changes the player only when
  \<open>y \<ge> groundY(status)\<close>, that is, on its ground line or beyond it (as for the frame after
  a duck on the ground is released): it then sets \<open>vy = -JUMP_FORCE = -650\<close> and nothing
  else. A jump input in the air (\<open>y < groundY(status)\<close>) leaves the player as it was.
  After such a jump, frames with \<open>dt \<ge> 0\<close> and no further input bring the player back:
  once \<open>13/18\<close> seconds have passed in all, \<open>y = groundY(status)\<close> and \<open>vy = 0\<close>; after
  every frame \<open>y\<close> is at most \<open>groundY(status)\<close> (from the start on, when the jump was
  taken on the ground line); and after a frame that ends on the ground line \<open>vy\<close> is \<open>0\<close>.
\<close>

theorem jump_and_land:
  "jump d = (if groundPosition (status d) \<le> y d then d\<lparr>vy := - JUMP_FORCE\<rparr> else d)
   \<and> JUMP_FORCE = 650
   \<and> (y d < groundPosition (status d) \<longrightarrow> jump d = d)
   \<and> (groundPosition (status d) \<le> y d \<and> (\<forall>deltaTime \<in> set dts. 0 \<le> deltaTime)
        \<and> 13 / 18 \<le> sum_list dts \<longrightarrow>
        jump d = d\<lparr>vy := - 650\<rparr>
        \<and> fall (jump d) dts = d\<lparr>y := groundPosition (status d), vy := 0\<rparr>
        \<and> (\<forall>n. 0 < n \<longrightarrow> y (fall (jump d) (take n dts)) \<le> groundPosition (status d))
        \<and> (y d = groundPosition (status d) \<longrightarrow>
              (\<forall>n. y (fall (jump d) (take n dts)) \<le> groundPosition (status d)))
        \<and> (\<forall>n. 0 < n \<and> y (fall (jump d) (take n dts)) = groundPosition (status d)
               \<longrightarrow> vy (fall (jump d) (take n dts)) = 0))"
proof -
  have air: "jump d = d" if "y d < groundPosition (status d)"
    using that by (simp add: jump_cases)
  have land: "jump d = d\<lparr>vy := - 650\<rparr>
        \<and> fall (jump d) dts = d\<lparr>y := groundPosition (status d), vy := 0\<rparr>
        \<and> (\<forall>n. 0 < n \<longrightarrow> y (fall (jump d) (take n dts)) \<le> groundPosition (status d))
        \<and> (y d = groundPosition (status d) \<longrightarrow>
              (\<forall>n. y (fall (jump d) (take n dts)) \<le> groundPosition (status d)))
        \<and> (\<forall>n. 0 < n \<and> y (fall (jump d) (take n dts)) = groundPosition (status d)
               \<longrightarrow> vy (fall (jump d) (take n dts)) = 0)"
    if ground: "groundPosition (status d) \<le> y d"
      and frames: "\<forall>deltaTime \<in> set dts. 0 \<le> deltaTime"
      and long: "13 / 18 \<le> sum_list dts"
  proof -
    let ?j = "d\<lparr>vy := - JUMP_FORCE\<rparr>"
    have j: "jump d = ?j"
      using ground by (simp add: jump_cases)
    have nonempty: "dts \<noteq> []"
      using long by auto
    have "fall ?j dts = ?j\<lparr>y := groundPosition (status ?j), vy := 0\<rparr>"
      by (rule jump_lands [of ?j 0]) (use ground frames long nonempty in simp_all)
    then have down: "fall (jump d) dts = d\<lparr>y := groundPosition (status d), vy := 0\<rparr>"
      by (simp add: j)
    have clamped: "y (fall (jump d) (take n dts)) \<le> groundPosition (status d)" if "0 < n" for n
    proof -
      have "take n dts \<noteq> []"
        using that nonempty by simp
      then show ?thesis
        using fall_clamped [of "take n dts" ?j] by (simp add: j)
    qed
    have never_beyond: "y (fall (jump d) (take n dts)) \<le> groundPosition (status d)"
      if "y d = groundPosition (status d)" for n
      using fall_below_ground [of ?j "take n dts"] that by (simp add: j)
    have at_rest: "vy (fall (jump d) (take n dts)) = 0"
      if "0 < n" and "y (fall (jump d) (take n dts)) = groundPosition (status d)" for n
    proof -
      have "take n dts \<noteq> []"
        using that(1) nonempty by simp
      then show ?thesis
        using fall_on_ground_at_rest [of "take n dts" ?j] that(2) by (simp add: j)
    qed
    show ?thesis
      using j down clamped never_beyond at_rest by (simp add: JUMP_FORCE_def)
  qed
  show ?thesis
    using air land by (simp add: jump_cases JUMP_FORCE_def)
qed

theorem jump_and_land_witness:
  "groundPosition (status \<lparr>y = 183, vy = 0, status = running\<rparr>) \<le> y \<lparr>y = 183, vy = 0, status = running\<rparr>
   \<and> (13 / 18 :: real) \<le> sum_list [1 / 4, 1 / 4, 1 / 4]
   \<and> jump \<lparr>y = 183, vy = 0, status = running\<rparr> = \<lparr>y = 183, vy = - 650, status = running\<rparr>
   \<and> fall (jump \<lparr>y = 183, vy = 0, status = running\<rparr>) [1 / 4] = \<lparr>y = 133, vy = - 200, status = running\<rparr>
   \<and> fall (jump \<lparr>y = 183, vy = 0, status = running\<rparr>) [1 / 4, 1 / 4, 1 / 4] = \<lparr>y = 183, vy = 0, status = running\<rparr>"
proof -
  have ground: "groundPosition (status \<lparr>y = 183, vy = 0, status = running\<rparr>) \<le> y \<lparr>y = 183, vy = 0, status = running\<rparr>"
    by (simp add: groundPosition_values)
  have long: "(13 / 18 :: real) \<le> sum_list [1 / 4, 1 / 4, 1 / 4]"
    by simp
  have frames: "\<forall>deltaTime \<in> set [1 / 4, 1 / 4, 1 / 4]. (0::real) \<le> deltaTime"
    by simp
  have "jump \<lparr>y = 183, vy = 0, status = running\<rparr> = \<lparr>y = 183, vy = 0, status = running\<rparr>\<lparr>vy := - 650\<rparr>
      \<and> fall (jump \<lparr>y = 183, vy = 0, status = running\<rparr>) [1 / 4, 1 / 4, 1 / 4]
          = \<lparr>y = 183, vy = 0, status = running\<rparr>\<lparr>y := groundPosition (status \<lparr>y = 183, vy = 0, status = running\<rparr>), vy := 0\<rparr>"
    using jump_and_land [of "\<lparr>y = 183, vy = 0, status = running\<rparr>" "[1 / 4, 1 / 4, 1 / 4]"]
      ground long frames
    by blast
  then have j: "jump \<lparr>y = 183, vy = 0, status = running\<rparr> = \<lparr>y = 183, vy = 0, status = running\<rparr>\<lparr>vy := - 650\<rparr>"
    and f: "fall (jump \<lparr>y = 183, vy = 0, status = running\<rparr>) [1 / 4, 1 / 4, 1 / 4]
          = \<lparr>y = 183, vy = 0, status = running\<rparr>\<lparr>y := groundPosition (status \<lparr>y = 183, vy = 0, status = running\<rparr>), vy := 0\<rparr>"
    by blast+
  have down: "jump \<lparr>y = 183, vy = 0, status = running\<rparr> = \<lparr>y = 183, vy = - 650, status = running\<rparr>"
    using j by simp
  have landed: "fall (jump \<lparr>y = 183, vy = 0, status = running\<rparr>) [1 / 4, 1 / 4, 1 / 4] = \<lparr>y = 183, vy = 0, status = running\<rparr>"
    using f by (simp add: groundPosition_values del: fall.simps)
  have up: "fall \<lparr>y = 183, vy = - 650, status = running\<rparr> [1 / 4]
      = \<lparr>y = 133, vy = - 200, status = running\<rparr>"
    by (simp add: integrate_def Let_def GRAVITY_def groundPosition_values)
  show ?thesis
    using ground long down landed up by (simp del: fall.simps)
qed

text \<open>
  The claim as stated has the jump act only at ground level, which the specification
  reads as \<open>y\<close> equal to the ground line. A player that ducks on the ground settles on
  the ducking ground line \<open>y = 200\<close> within eight frames of 1/60 s; when the key is
  released its status is \<open>running\<close> again, whose ground line is 183, and a jump input
  before the next frame sets \<open>vy = -650\<close> although \<open>y\<close> is not on that line.
\<close>

theorem jump_off_ground_line_counterexample:
  "handleKeyUp_ArrowDown
       (fall (handleKeyDown_ArrowDown \<lparr>y = 183, vy = 0, status = running\<rparr>)
          [1 / 60, 1 / 60, 1 / 60, 1 / 60, 1 / 60, 1 / 60, 1 / 60, 1 / 60])
     = \<lparr>y = 200, vy = 0, status = running\<rparr>
   \<and> y \<lparr>y = 200, vy = 0, status = running\<rparr> \<noteq> groundPosition (status \<lparr>y = 200, vy = 0, status = running\<rparr>)
   \<and> jump \<lparr>y = 200, vy = 0, status = running\<rparr> = \<lparr>y = 200, vy = - 650, status = running\<rparr>
   \<and> jump \<lparr>y = 200, vy = 0, status = running\<rparr> \<noteq> \<lparr>y = 200, vy = 0, status = running\<rparr>"
  by (simp add: handleKeyDown_ArrowDown_def handleKeyUp_ArrowDown_def integrate_def Let_def
      GRAVITY_def groundPosition_values jump_cases JUMP_FORCE_def)


section \<open>High score\<close>

text \<open>
  C7. On entering \<open>gameOver\<close> the high score becomes the maximum of the previous high
  score and the floor of the score. The store is written, under the key
  \<open>dinoHighScore\<close>, exactly when the floor of the score is above the previous high score;
  otherwise the high score and the store are left as they were. Running the effect once
  more, as React does when the high score has changed, changes nothing.
\<close>

theorem high_score_update:
  "gameState g = GameOver \<Longrightarrow>
     (let res = gameStateEffect g localStorage;
          finalScore = \<lfloor>score g\<rfloor>
      in highScore (fst res) = max (highScore g) (real_of_int finalScore)
         \<and> fst res = g\<lparr>highScore := max (highScore g) (real_of_int finalScore)\<rparr>
         \<and> (if real_of_int finalScore > highScore g
             then snd res = localStorage(''dinoHighScore'' \<mapsto> toString finalScore)
             else snd res = localStorage \<and> fst res = g)
         \<and> gameStateEffect (fst res) (snd res) = res)"
  by (simp add: gameStateEffect_def Let_def max_def)

theorem high_score_update_witness:
  "gameState \<lparr>gameState = GameOver, dino = \<lparr>y = 183, vy = 0, status = running\<rparr>,
       obstacles = [], score = 1237 / 10, highScore = 100, speed = 300, lastTimeRef = 1000,
       nextObstacleTimeRef = 1000\<rparr> = GameOver
   \<and> highScore (fst (gameStateEffect \<lparr>gameState = GameOver, dino = \<lparr>y = 183, vy = 0, status = running\<rparr>,
       obstacles = [], score = 1237 / 10, highScore = 100, speed = 300, lastTimeRef = 1000,
       nextObstacleTimeRef = 1000\<rparr>
        (Map.empty(''dinoHighScore'' \<mapsto> ''100'')))) = 123
   \<and> snd (gameStateEffect \<lparr>gameState = GameOver, dino = \<lparr>y = 183, vy = 0, status = running\<rparr>,
       obstacles = [], score = 1237 / 10, highScore = 100, speed = 300, lastTimeRef = 1000,
       nextObstacleTimeRef = 1000\<rparr>
        (Map.empty(''dinoHighScore'' \<mapsto> ''100''))) ''dinoHighScore''
     = Some ''123''"
  using high_score_update [of "\<lparr>gameState = GameOver, dino = \<lparr>y = 183, vy = 0, status = running\<rparr>,
       obstacles = [], score = 1237 / 10, highScore = 100, speed = 300, lastTimeRef = 1000,
       nextObstacleTimeRef = 1000\<rparr>"
      "Map.empty(''dinoHighScore'' \<mapsto> ''100'')"]
  by (simp add: Let_def toString_def)


section \<open>The scenario of the fall\<close>

text \<open>
  C8, as the code has it. With \<open>GRAVITY = 1800\<close>, \<open>GROUND_Y = 230\<close> and the running
  height 47 the ground line is \<open>groundY = 183\<close>, and the start \<open>y = 203\<close> is already
  beyond it. The first frame of 1/60 s puts the player on the ground line, \<open>y = 183\<close>
  with \<open>vy = 0\<close>, and it is there after each of the ten frames: \<open>y\<close> never grows, and
  after the first frame it never exceeds \<open>groundY\<close>.
\<close>

theorem fall_scenario:
  "GRAVITY = 1800 \<and> GROUND_Y = 230 \<and> height (getDinoDimensions running) = 47
   \<and> groundPosition running = 183
   \<and> map (\<lambda>n. fall \<lparr>y = 203, vy = 0, status = running\<rparr> (replicate n (1 / 60))) [1, 2, 3, 4, 5, 6, 7, 8, 9, 10]
       = replicate 10 \<lparr>y = 183, vy = 0, status = running\<rparr>"
proof -
  have first: "integrate \<lparr>y = 203, vy = 0, status = running\<rparr> (1 / 60) = \<lparr>y = 183, vy = 0, status = running\<rparr>"
    by (simp add: integrate_def Let_def GRAVITY_def groundPosition_values)
  have "fall \<lparr>y = 203, vy = 0, status = running\<rparr> (1 / 60 # dts)
      = \<lparr>y = 183, vy = 0, status = running\<rparr>" for dts
    by (simp add: first fall_landed groundPosition_values)
  then have "map (\<lambda>n. fall \<lparr>y = 203, vy = 0, status = running\<rparr> (replicate n (1 / 60)))
        [1, 2, 3, 4, 5, 6, 7, 8, 9, 10]
      = replicate 10 \<lparr>y = 183, vy = 0, status = running\<rparr>"
    by (simp add: eval_nat_numeral del: fall.simps)
  then show ?thesis
    by (simp add: groundPosition_values GRAVITY_def GROUND_Y_def GAME_HEIGHT_def
        getDinoDimensions_def DINO_RUNNING_DIMENSIONS_def)
qed

text \<open>
  The claim as stated has the player descend monotonically without ever exceeding
  \<open>groundY\<close>. With \<open>y\<close> counted from the top, descending is growing \<open>y\<close>; the start is
  beyond the ground line and the first frame moves the player up to it, from 203 to 183.
\<close>

theorem fall_scenario_counterexample:
  "\<not> y \<lparr>y = 203, vy = 0, status = running\<rparr> \<le> groundPosition running
   \<and> y (fall \<lparr>y = 203, vy = 0, status = running\<rparr> [1 / 60]) = 183
   \<and> \<not> y \<lparr>y = 203, vy = 0, status = running\<rparr> \<le> y (fall \<lparr>y = 203, vy = 0, status = running\<rparr> [1 / 60])"
  by (simp add: integrate_def Let_def GRAVITY_def groundPosition_values)


section \<open>The two versions of the loop\<close>

text \<open>
  C9, as the code has it. On the first frame after a start both versions only record the
  time. On a later frame, for the same previous state, time and random draws: whenever
  part\_001 detects no collision, part\_002 computes the same player, obstacles, score,
  speed, countdown and last time, and differs at most in \<open>gameState\<close>, which it sets to
  \<open>gameOver\<close> when its own test, on the player and obstacles before the frame, finds a
  hit; when neither version detects a collision the two successor states are the same and
  the game state is unchanged.
\<close>

theorem versions_agree:
  "(lastTimeRef g = 0 \<longrightarrow>
      gameLoop_002 g time rndType rndInterval = gameLoop_001 g time rndType rndInterval)
   \<and> (lastTimeRef g \<noteq> 0
       \<and> \<not> detects_001 g ((time - lastTimeRef g) / 1000) rndType rndInterval \<longrightarrow>
      gameLoop_002 g time rndType rndInterval =
        (gameLoop_001 g time rndType rndInterval)
          \<lparr>gameState := (if detects_002 g then GameOver else gameState g)\<rparr>)
   \<and> (lastTimeRef g \<noteq> 0
       \<and> \<not> detects_001 g ((time - lastTimeRef g) / 1000) rndType rndInterval
       \<and> \<not> detects_002 g \<longrightarrow>
      gameLoop_002 g time rndType rndInterval = gameLoop_001 g time rndType rndInterval
      \<and> gameState (gameLoop_001 g time rndType rndInterval) = gameState g)"
  by (simp add: gameLoop_001_def gameLoop_002_def tick_001_cases tick_002_cases Let_def)

theorem versions_agree_witness:
  "lastTimeRef \<lparr>gameState = Running, dino = \<lparr>y = 183, vy = 0, status = running\<rparr>,
       obstacles = [\<lparr>width = 25, height = 50, x = 400, type = ''CACTUS_SMALL''\<rparr>],
       score = 40, highScore = 0, speed = 300, lastTimeRef = 1000, nextObstacleTimeRef = 1000\<rparr> \<noteq> 0
   \<and> gameLoop_002 \<lparr>gameState = Running, dino = \<lparr>y = 183, vy = 0, status = running\<rparr>,
       obstacles = [\<lparr>width = 25, height = 50, x = 400, type = ''CACTUS_SMALL''\<rparr>],
       score = 40, highScore = 0, speed = 300, lastTimeRef = 1000, nextObstacleTimeRef = 1000\<rparr>
        1020 (1 / 4) (1 / 2)
     = \<lparr>gameState = Running, dino = \<lparr>y = 183, vy = 0, status = running\<rparr>,
       obstacles = [\<lparr>width = 25, height = 50, x = 394, type = ''CACTUS_SMALL''\<rparr>],
       score = 203 / 5, highScore = 0, speed = 7504 / 25, lastTimeRef = 1020,
       nextObstacleTimeRef = 980\<rparr>
   \<and> gameLoop_001 \<lparr>gameState = Running, dino = \<lparr>y = 183, vy = 0, status = running\<rparr>,
       obstacles = [\<lparr>width = 25, height = 50, x = 400, type = ''CACTUS_SMALL''\<rparr>],
       score = 40, highScore = 0, speed = 300, lastTimeRef = 1000, nextObstacleTimeRef = 1000\<rparr>
        1020 (1 / 4) (1 / 2)
     = \<lparr>gameState = Running, dino = \<lparr>y = 183, vy = 0, status = running\<rparr>,
       obstacles = [\<lparr>width = 25, height = 50, x = 394, type = ''CACTUS_SMALL''\<rparr>],
       score = 203 / 5, highScore = 0, speed = 7504 / 25, lastTimeRef = 1020,
       nextObstacleTimeRef = 980\<rparr>"
  using versions_agree [of
     "\<lparr>gameState = Running, dino = \<lparr>y = 183, vy = 0, status = running\<rparr>,
       obstacles = [\<lparr>width = 25, height = 50, x = 400, type = ''CACTUS_SMALL''\<rparr>],
       score = 40, highScore = 0, speed = 300, lastTimeRef = 1000, nextObstacleTimeRef = 1000\<rparr>"
     1020 "1 / 4" "1 / 2"]
  by (simp add: gameLoop_001_def tick_001_def Let_def
      spawnObstacle_def scrollObstacles_def moveObstacle_def integrate_def GRAVITY_def
      groundPosition_def getDinoDimensions_def GROUND_Y_def GAME_HEIGHT_def
      DINO_RUNNING_DIMENSIONS_def dinoHitbox_def obstacleHitbox_def collides_def detects_001_def detects_002_def SPEED_INCREASE_RATE_def)

text \<open>
  The claim as stated has the two versions make the same \<open>gameOver\<close> decision and reach
  the same successor state on every frame. With a small cactus at \<open>x = 96\<close> a frame of
  20 ms moves it to \<open>x = 90\<close>, under the player: part\_001 tests the moved cactus, ends
  the game and keeps the old obstacle list; part\_002 tests the cactus where it was, goes
  on running and stores the moved list.
\<close>

theorem versions_differ_counterexample:
  "gameState (gameLoop_001 \<lparr>gameState = Running, dino = \<lparr>y = 183, vy = 0, status = running\<rparr>,
       obstacles = [\<lparr>width = 25, height = 50, x = 96, type = ''CACTUS_SMALL''\<rparr>],
       score = 40, highScore = 0, speed = 300, lastTimeRef = 1000, nextObstacleTimeRef = 1000\<rparr>
        1020 (1 / 4) (1 / 2)) = GameOver
   \<and> gameState (gameLoop_002 \<lparr>gameState = Running, dino = \<lparr>y = 183, vy = 0, status = running\<rparr>,
       obstacles = [\<lparr>width = 25, height = 50, x = 96, type = ''CACTUS_SMALL''\<rparr>],
       score = 40, highScore = 0, speed = 300, lastTimeRef = 1000, nextObstacleTimeRef = 1000\<rparr>
        1020 (1 / 4) (1 / 2)) = Running
   \<and> obstacles (gameLoop_001 \<lparr>gameState = Running, dino = \<lparr>y = 183, vy = 0, status = running\<rparr>,
       obstacles = [\<lparr>width = 25, height = 50, x = 96, type = ''CACTUS_SMALL''\<rparr>],
       score = 40, highScore = 0, speed = 300, lastTimeRef = 1000, nextObstacleTimeRef = 1000\<rparr>
        1020 (1 / 4) (1 / 2))
     \<noteq> obstacles (gameLoop_002 \<lparr>gameState = Running, dino = \<lparr>y = 183, vy = 0, status = running\<rparr>,
       obstacles = [\<lparr>width = 25, height = 50, x = 96, type = ''CACTUS_SMALL''\<rparr>],
       score = 40, highScore = 0, speed = 300, lastTimeRef = 1000, nextObstacleTimeRef = 1000\<rparr>
        1020 (1 / 4) (1 / 2))"
  by (simp add: gameLoop_001_def gameLoop_002_def tick_001_def tick_002_def Let_def
      spawnObstacle_def scrollObstacles_def moveObstacle_def integrate_def GRAVITY_def
      groundPosition_def getDinoDimensions_def GROUND_Y_def GAME_HEIGHT_def
      DINO_RUNNING_DIMENSIONS_def dinoHitbox_def obstacleHitbox_def collides_def)


section \<open>The frame that ends the game\<close>

text \<open>
  C10, as the code has it. In part\_001 a frame whose collision test finds a hit sets
  \<open>gameState\<close> to \<open>gameOver\<close> and returns before the player, obstacle list, score and
  speed updates are applied: those fields (and the high score) keep the values they had
  before the frame. The frame does change two more cells, the reference cells the loop
  has written before the test: the last frame time becomes the time of this frame, and
  the spawn countdown is decreased by \<open>dt * 1000\<close> and, when that is \<open>\<le> 0\<close>, drawn anew.
  Nothing else changes.
\<close>

theorem game_over_frame:
  "(lastTimeRef g \<noteq> 0 \<and> detects_001 g ((time - lastTimeRef g) / 1000) rndType rndInterval
      \<longrightarrow> gameState (gameLoop_001 g time rndType rndInterval) = GameOver
          \<and> gameLoop_001 g time rndType rndInterval =
              g\<lparr>gameState := GameOver, lastTimeRef := time,
                nextObstacleTimeRef :=
                  snd (spawnObstacle (speed g) ((time - lastTimeRef g) / 1000) rndType rndInterval
                    (scrollObstacles (speed g) ((time - lastTimeRef g) / 1000) (obstacles g),
                     nextObstacleTimeRef g))\<rparr>
          \<and> lastTimeRef (gameLoop_001 g time rndType rndInterval) = time
          \<and> nextObstacleTimeRef (gameLoop_001 g time rndType rndInterval) =
              (if nextObstacleTimeRef g - (time - lastTimeRef g) / 1000 * 1000 \<le> 0
               then random_range OBSTACLE_INTERVAL_MIN OBSTACLE_INTERVAL_MAX rndInterval
                      / (speed g / INITIAL_SPEED)
               else nextObstacleTimeRef g - (time - lastTimeRef g) / 1000 * 1000))
   \<and> (gameState g = Running \<and> gameState (gameLoop_001 g time rndType rndInterval) = GameOver
      \<longrightarrow> dino (gameLoop_001 g time rndType rndInterval) = dino g
          \<and> obstacles (gameLoop_001 g time rndType rndInterval) = obstacles g
          \<and> score (gameLoop_001 g time rndType rndInterval) = score g
          \<and> speed (gameLoop_001 g time rndType rndInterval) = speed g
          \<and> highScore (gameLoop_001 g time rndType rndInterval) = highScore g)"
  by (auto simp: gameLoop_001_def tick_001_cases spawnObstacle_def Let_def split: if_splits)

theorem game_over_frame_witness:
  "lastTimeRef \<lparr>gameState = Running, dino = \<lparr>y = 183, vy = 0, status = running\<rparr>,
       obstacles = [\<lparr>width = 25, height = 50, x = 96, type = ''CACTUS_SMALL''\<rparr>],
       score = 40, highScore = 0, speed = 300, lastTimeRef = 1000, nextObstacleTimeRef = 1000\<rparr> \<noteq> 0
   \<and> gameState \<lparr>gameState = Running, dino = \<lparr>y = 183, vy = 0, status = running\<rparr>,
       obstacles = [\<lparr>width = 25, height = 50, x = 96, type = ''CACTUS_SMALL''\<rparr>],
       score = 40, highScore = 0, speed = 300, lastTimeRef = 1000, nextObstacleTimeRef = 1000\<rparr> = Running
   \<and> gameLoop_001 \<lparr>gameState = Running, dino = \<lparr>y = 183, vy = 0, status = running\<rparr>,
       obstacles = [\<lparr>width = 25, height = 50, x = 96, type = ''CACTUS_SMALL''\<rparr>],
       score = 40, highScore = 0, speed = 300, lastTimeRef = 1000, nextObstacleTimeRef = 1000\<rparr>
        1020 (1 / 4) (1 / 2)
     = \<lparr>gameState = GameOver, dino = \<lparr>y = 183, vy = 0, status = running\<rparr>,
       obstacles = [\<lparr>width = 25, height = 50, x = 96, type = ''CACTUS_SMALL''\<rparr>],
       score = 40, highScore = 0, speed = 300, lastTimeRef = 1020, nextObstacleTimeRef = 980\<rparr>"
  using game_over_frame [of
     "\<lparr>gameState = Running, dino = \<lparr>y = 183, vy = 0, status = running\<rparr>,
       obstacles = [\<lparr>width = 25, height = 50, x = 96, type = ''CACTUS_SMALL''\<rparr>],
       score = 40, highScore = 0, speed = 300, lastTimeRef = 1000, nextObstacleTimeRef = 1000\<rparr>"
     1020 "1 / 4" "1 / 2"]
  by (simp add: gameLoop_001_def tick_001_def Let_def
      spawnObstacle_def scrollObstacles_def moveObstacle_def integrate_def GRAVITY_def
      groundPosition_def getDinoDimensions_def GROUND_Y_def GAME_HEIGHT_def
      DINO_RUNNING_DIMENSIONS_def dinoHitbox_def obstacleHitbox_def collides_def)

text \<open>
  The claim as stated has the frame change nothing but \<open>gameState\<close>. With a small
  cactus at \<open>x = 96\<close> and a frame of 20 ms the game ends, and the successor state is not
  the old one with \<open>gameState\<close> set: the last frame time has gone from 1000 to 1020 and
  the spawn countdown from 1000 to 980.
\<close>

theorem game_over_frame_counterexample:
  "gameState (gameLoop_001 \<lparr>gameState = Running, dino = \<lparr>y = 183, vy = 0, status = running\<rparr>,
       obstacles = [\<lparr>width = 25, height = 50, x = 96, type = ''CACTUS_SMALL''\<rparr>],
       score = 40, highScore = 0, speed = 300, lastTimeRef = 1000, nextObstacleTimeRef = 1000\<rparr>
        1020 (1 / 4) (1 / 2)) = GameOver
   \<and> gameLoop_001 \<lparr>gameState = Running, dino = \<lparr>y = 183, vy = 0, status = running\<rparr>,
       obstacles = [\<lparr>width = 25, height = 50, x = 96, type = ''CACTUS_SMALL''\<rparr>],
       score = 40, highScore = 0, speed = 300, lastTimeRef = 1000, nextObstacleTimeRef = 1000\<rparr>
        1020 (1 / 4) (1 / 2)
     \<noteq> \<lparr>gameState = Running, dino = \<lparr>y = 183, vy = 0, status = running\<rparr>,
       obstacles = [\<lparr>width = 25, height = 50, x = 96, type = ''CACTUS_SMALL''\<rparr>],
       score = 40, highScore = 0, speed = 300, lastTimeRef = 1000, nextObstacleTimeRef = 1000\<rparr>\<lparr>gameState := GameOver\<rparr>
   \<and> nextObstacleTimeRef (gameLoop_001 \<lparr>gameState = Running, dino = \<lparr>y = 183, vy = 0, status = running\<rparr>,
       obstacles = [\<lparr>width = 25, height = 50, x = 96, type = ''CACTUS_SMALL''\<rparr>],
       score = 40, highScore = 0, speed = 300, lastTimeRef = 1000, nextObstacleTimeRef = 1000\<rparr>
        1020 (1 / 4) (1 / 2)) = 980
   \<and> lastTimeRef (gameLoop_001 \<lparr>gameState = Running, dino = \<lparr>y = 183, vy = 0, status = running\<rparr>,
       obstacles = [\<lparr>width = 25, height = 50, x = 96, type = ''CACTUS_SMALL''\<rparr>],
       score = 40, highScore = 0, speed = 300, lastTimeRef = 1000, nextObstacleTimeRef = 1000\<rparr>
        1020 (1 / 4) (1 / 2)) = 1020"
  by (simp add: gameLoop_001_def tick_001_def Let_def
      spawnObstacle_def scrollObstacles_def moveObstacle_def integrate_def GRAVITY_def
      groundPosition_def getDinoDimensions_def GROUND_Y_def GAME_HEIGHT_def
      DINO_RUNNING_DIMENSIONS_def dinoHitbox_def obstacleHitbox_def collides_def)

end
